theory Spec2Isabelle
  imports Complex_Main "HOL-Library.Word"
begin

section \<open>Numbers, strings and dictionaries of the program\<close>

text \<open>
  The program computes with numpy \<open>float32\<close> arrays and Python floats. Finite floating
  point values are idealised as exact reals; the one non-finite value the program can
  produce, the NaN that \<open>np.mean\<close> returns for an empty selection, is kept as a value
  of its own and propagates through every later operation, as IEEE arithmetic does.
\<close>

datatype pyfloat = Fin real | NaN

fun lift2 :: "(real \<Rightarrow> real \<Rightarrow> real) \<Rightarrow> pyfloat \<Rightarrow> pyfloat \<Rightarrow> pyfloat" where
  "lift2 f (Fin a) (Fin b) = Fin (f a b)"
| "lift2 f NaN y = NaN"
| "lift2 f (Fin a) NaN = NaN"

definition fadd :: "pyfloat \<Rightarrow> pyfloat \<Rightarrow> pyfloat" where
  "fadd = lift2 (\<lambda>a b. a + b)"

definition fmul :: "pyfloat \<Rightarrow> pyfloat \<Rightarrow> pyfloat" where
  "fmul = lift2 (\<lambda>a b. a * b)"

definition fdiv :: "pyfloat \<Rightarrow> pyfloat \<Rightarrow> pyfloat" where
  "fdiv = lift2 (\<lambda>a b. a / b)"

text \<open>Rounding to the nearest integer, ties to the even one (numpy's \<open>rint\<close>, Python's \<open>round\<close>).\<close>

definition round_half_even :: "real \<Rightarrow> int" where
  "round_half_even x =
     (let f = \<lfloor>x\<rfloor>; d = x - of_int f
      in if d < 1 / 2 then f
         else if 1 / 2 < d then f + 1
         else if even f then f else f + 1)"

text \<open>\<open>round(x, ndigits)\<close>: NaN stays NaN.\<close>

fun py_round :: "pyfloat \<Rightarrow> nat \<Rightarrow> pyfloat" where
  "py_round (Fin v) n = Fin (of_int (round_half_even (v * 10 ^ n)) / 10 ^ n)"
| "py_round NaN n = NaN"

text \<open>
  \<open>np.mean\<close> of a one-dimensional selection. The mean of an empty selection is 0/0,
  which numpy evaluates to NaN (with a warning, not an exception).
\<close>

definition np_mean :: "real list \<Rightarrow> pyfloat" where
  "np_mean xs = (if xs = [] then NaN else Fin (sum_list xs / real (length xs)))"

text \<open>
  An f-string with one interpolated number, \<open>f"<prefix>{x}<suffix>"\<close>: the literal text
  before the number, the number whose \<open>str\<close> is interpolated, the literal text after it.
  \<open>str\<close> of a float followed by \<open>float\<close> gives the number back, so the digits are not
  spelled out.
\<close>

datatype fstr = FStr string pyfloat string

datatype py_error = KeyError string | ValueError | UnidentifiedImageError

text \<open>\<open>s.strip('%')\<close>: the digits of a number hold no percent sign, so only the literal
  parts lose characters.\<close>

fun strip_percent :: "fstr \<Rightarrow> fstr" where
  "strip_percent (FStr p x s) =
     FStr (dropWhile (\<lambda>c. c = CHR ''%'') p) x (rev (dropWhile (\<lambda>c. c = CHR ''%'') (rev s)))"

text \<open>\<open>float(s)\<close>: a string that holds anything besides the number raises ValueError.\<close>

fun py_float :: "fstr \<Rightarrow> py_error + pyfloat" where
  "py_float (FStr p x s) = (if p = [] \<and> s = [] then Inr x else Inl ValueError)"

text \<open>A dict with string keys, in insertion order; \<open>d[k]\<close> raises KeyError on a missing key.\<close>

type_synonym 'v dict = "(string \<times> 'v) list"

definition dict_get :: "'v dict \<Rightarrow> string \<Rightarrow> py_error + 'v" where
  "dict_get d k = (case map_of d k of None \<Rightarrow> Inl (KeyError k) | Some v \<Rightarrow> Inr v)"

section \<open>Ink coverage: \<open>calculate_cmyk_coverage\<close>\<close>

text \<open>
  A decoded image is what \<open>cv2.imread\<close> returns: rows of pixels, each pixel three
  unsigned bytes in the order blue, green, red. \<open>imread\<close> itself is outside the program;
  its result is \<open>None\<close> when the file cannot be decoded.
\<close>

type_synonym pixel = "8 word \<times> 8 word \<times> 8 word"
type_synonym image = "pixel list list"

text \<open>\<open>image.astype(np.float32) / 255\<close>, per array element.\<close>

definition norm255 :: "8 word \<Rightarrow> real" where
  "norm255 v = real (unat v) / 255"

definition eps :: real where
  "eps = 1 / 10 ^ 10"

text \<open>\<open>K = 1 - np.max(bgr, axis=2)\<close>, per pixel.\<close>

fun K_px :: "pixel \<Rightarrow> real" where
  "K_px (b, g, r) = 1 - max (max (norm255 b) (norm255 g)) (norm255 r)"

text \<open>The shared denominator \<open>1 - K + 1e-10\<close>.\<close>

definition denom :: "pixel \<Rightarrow> real" where
  "denom p = 1 - K_px p + eps"

text \<open>\<open>C\<close>, \<open>M\<close>, \<open>Y\<close> per pixel: index 2 is red, 1 is green, 0 is blue.\<close>

fun C_px :: "pixel \<Rightarrow> real" where
  "C_px (b, g, r) = (1 - norm255 r - K_px (b, g, r)) / denom (b, g, r)"

fun M_px :: "pixel \<Rightarrow> real" where
  "M_px (b, g, r) = (1 - norm255 g - K_px (b, g, r)) / denom (b, g, r)"

fun Y_px :: "pixel \<Rightarrow> real" where
  "Y_px (b, g, r) = (1 - norm255 b - K_px (b, g, r)) / denom (b, g, r)"

text \<open>A channel array, flattened in row order (the mean does not see the shape).\<close>

definition channel :: "(pixel \<Rightarrow> real) \<Rightarrow> image \<Rightarrow> real list" where
  "channel f img = map f (concat img)"

text \<open>\<open>channel[channel > 0]\<close>: the boolean mask keeps the strictly positive entries.\<close>

definition positive :: "real list \<Rightarrow> real list" where
  "positive xs = filter (\<lambda>v. 0 < v) xs"

text \<open>\<open>ink_percentage\<close>: \<open>round(np.mean(channel[channel > 0]) * 100, 2)\<close>.\<close>

definition ink_percentage :: "real list \<Rightarrow> pyfloat" where
  "ink_percentage ch = py_round (fmul (np_mean (positive ch)) (Fin 100)) 2"

text \<open>\<open>f"{x}%"\<close>\<close>

definition percent_str :: "pyfloat \<Rightarrow> fstr" where
  "percent_str x = FStr [] x ''%''"

text \<open>The argument is the result of \<open>cv2.imread(image_path)\<close>.\<close>

fun calculate_cmyk_coverage :: "image option \<Rightarrow> fstr dict option" where
  "calculate_cmyk_coverage None = None"
| "calculate_cmyk_coverage (Some img) =
     Some [(''Cyan'', percent_str (ink_percentage (channel C_px img))),
           (''Magenta'', percent_str (ink_percentage (channel M_px img))),
           (''Yellow'', percent_str (ink_percentage (channel Y_px img))),
           (''Black (K)'', percent_str (py_round (fmul (np_mean (channel K_px img)) (Fin 100)) 2))]"

section \<open>Print cost: \<open>calculate_print_cost\<close>\<close>

text \<open>The module-level variables that \<open>calculate_print_cost\<close> reads.\<close>

record globals =
  ink_prices :: "real dict"
  paper_cost :: real
  markup :: real

definition print_area :: "real \<Rightarrow> real \<Rightarrow> real" where
  "print_area print_width print_height = (print_width / 1000) * (print_height / 1000)"

text \<open>
  One term of the generator,
  \<open>((float(ink_coverage[color].strip('%')) / 100) * print_area * ink_usage_per_m2[color]) * ink_prices[color]\<close>,
  with its lookups and its parse in evaluation order.
\<close>

definition ink_term :: "globals \<Rightarrow> real \<Rightarrow> fstr dict \<Rightarrow> real dict \<Rightarrow> string \<Rightarrow> py_error + pyfloat" where
  "ink_term g area ink_coverage ink_usage_per_m2 color =
     (case dict_get ink_coverage color of Inl e \<Rightarrow> Inl e | Inr s \<Rightarrow>
      case py_float (strip_percent s) of Inl e \<Rightarrow> Inl e | Inr c \<Rightarrow>
      case dict_get ink_usage_per_m2 color of Inl e \<Rightarrow> Inl e | Inr u \<Rightarrow>
      case dict_get (ink_prices g) color of Inl e \<Rightarrow> Inl e | Inr p \<Rightarrow>
        Inr (fmul (fmul (fmul (fdiv c (Fin 100)) (Fin area)) (Fin u)) (Fin p)))"

text \<open>\<open>sum(... for color in ink_prices)\<close>: a left fold from 0 over the keys, in order.\<close>

fun py_sum :: "(string \<Rightarrow> py_error + pyfloat) \<Rightarrow> string list \<Rightarrow> pyfloat \<Rightarrow> py_error + pyfloat" where
  "py_sum f [] acc = Inr acc"
| "py_sum f (c # cs) acc = (case f c of Inl e \<Rightarrow> Inl e | Inr t \<Rightarrow> py_sum f cs (fadd acc t))"

definition total_ink_cost :: "globals \<Rightarrow> real \<Rightarrow> real \<Rightarrow> fstr dict \<Rightarrow> real dict \<Rightarrow> py_error + pyfloat" where
  "total_ink_cost g print_width print_height ink_coverage ink_usage_per_m2 =
     py_sum (ink_term g (print_area print_width print_height) ink_coverage ink_usage_per_m2)
       (map fst (ink_prices g)) (Fin 0)"

definition total_cost :: "globals \<Rightarrow> pyfloat \<Rightarrow> pyfloat" where
  "total_cost g ink = fadd ink (Fin (paper_cost g))"

definition final_price :: "globals \<Rightarrow> pyfloat \<Rightarrow> pyfloat" where
  "final_price g t = fmul t (Fin (1 + markup g))"

text \<open>The peso sign U+20B1, as its three UTF-8 bytes.\<close>

definition peso :: string where
  "peso = [CHR 0xE2, CHR 0x82, CHR 0xB1]"

text \<open>\<open>f"<peso>{x}"\<close>\<close>

definition peso_str :: "pyfloat \<Rightarrow> fstr" where
  "peso_str x = FStr peso x []"

definition calculate_print_cost :: "globals \<Rightarrow> real \<Rightarrow> real \<Rightarrow> fstr dict \<Rightarrow> real dict \<Rightarrow> py_error + fstr dict" where
  "calculate_print_cost g print_width print_height ink_coverage ink_usage_per_m2 =
     (case total_ink_cost g print_width print_height ink_coverage ink_usage_per_m2 of
        Inl e \<Rightarrow> Inl e
      | Inr ink \<Rightarrow>
          Inr [(''Ink Cost'', peso_str (py_round ink 2)),
               (''Paper Cost'', peso_str (Fin (paper_cost g))),
               (''Total Cost'', peso_str (py_round (total_cost g ink) 2)),
               (''Final Price (with Markup)'', peso_str (py_round (final_price g (total_cost g ink)) 2))])"

section \<open>The script around the two functions\<close>

datatype printer = Epson_Workforce_C5290 | Xerox_VersaLink_C405

record printer_config =
  INK_USAGE_PER_M2 :: "real dict"
  DEFAULT_INK_PRICES :: "real dict"

fun PRINTERS :: "printer \<Rightarrow> printer_config" where
  "PRINTERS Epson_Workforce_C5290 =
     \<lparr>INK_USAGE_PER_M2 = [(''Cyan'', 5529 / 100), (''Magenta'', 5529 / 100),
                           (''Yellow'', 5529 / 100), (''Black (K)'', 5529 / 100)],
      DEFAULT_INK_PRICES = [(''Cyan'', 1), (''Magenta'', 1), (''Yellow'', 1), (''Black (K)'', 1)]\<rparr>"
| "PRINTERS Xerox_VersaLink_C405 =
     \<lparr>INK_USAGE_PER_M2 = [(''Cyan'', 332 / 1000), (''Magenta'', 332 / 1000),
                           (''Yellow'', 332 / 1000), (''Black (K)'', 332 / 1000)],
      DEFAULT_INK_PRICES = [(''Cyan'', 33175 / 100), (''Magenta'', 33175 / 100),
                            (''Yellow'', 33175 / 100), (''Black (K)'', 33175 / 100)]\<rparr>"

text \<open>
  What the widgets return: the selected printer, the paper cost, the slider's integer
  percentage, the print size in inches, and the number entered for each ink colour.
\<close>

record inputs =
  printer_choice :: printer
  paper_cost_input :: real
  markup_slider :: int
  print_width_in :: real
  print_height_in :: real
  ink_price_input :: "string \<Rightarrow> real"

definition globals_of :: "inputs \<Rightarrow> globals" where
  "globals_of inp =
     \<lparr>ink_prices = map (\<lambda>(color, d). (color, ink_price_input inp color))
                       (DEFAULT_INK_PRICES (PRINTERS (printer_choice inp))),
      paper_cost = paper_cost_input inp,
      markup = real_of_int (markup_slider inp) / 100\<rparr>"

definition PRINT_WIDTH :: "inputs \<Rightarrow> real" where
  "PRINT_WIDTH inp = print_width_in inp * (254 / 10)"

definition PRINT_HEIGHT :: "inputs \<Rightarrow> real" where
  "PRINT_HEIGHT inp = print_height_in inp * (254 / 10)"

text \<open>
  What the script shows, in order, and the exception that ended it, if any. The labels
  of \<open>st.write\<close> are the dictionary keys.
\<close>

datatype st_event =
  StImage
  | StSubheader string
  | StWrite string fstr
  | StError string

record outcome =
  shown :: "st_event list"
  raised :: "py_error option"

type_synonym bytes = "8 word list"

text \<open>
  The \<open>if uploaded_file:\<close> block. Two library calls read the temporary file that
  holds the uploaded bytes, and both are parameters here: \<open>st_image\<close> is
  \<open>st.image(temp_filename, ...)\<close>, which shows the file or raises when it cannot open
  it as an image, and \<open>imread\<close> is the decoder \<open>cv2.imread\<close>. \<open>st.image\<close> is called
  first and nothing catches its exception, so a raise ends the script before anything
  is shown. A dictionary is true when it is not empty.
\<close>

definition script ::
  "(bytes \<Rightarrow> py_error option) \<Rightarrow> (bytes \<Rightarrow> image option) \<Rightarrow> inputs \<Rightarrow> bytes option \<Rightarrow> outcome" where
  "script st_image imread inp uploaded_file =
     (case uploaded_file of
        None \<Rightarrow> \<lparr>shown = [], raised = None\<rparr>
      | Some content \<Rightarrow>
          (case st_image content of
             Some e \<Rightarrow> \<lparr>shown = [], raised = Some e\<rparr>
           | None \<Rightarrow>
          (case calculate_cmyk_coverage (imread content) of
             None \<Rightarrow>
               \<lparr>shown = [StImage, StError ''Error processing the image. Please try another file.''],
                raised = None\<rparr>
           | Some cmyk_coverage \<Rightarrow>
               if cmyk_coverage = [] then
                 \<lparr>shown = [StImage, StError ''Error processing the image. Please try another file.''],
                  raised = None\<rparr>
               else
                 (let coverage_shown =
                        [StImage, StSubheader ''CMYK Ink Coverage'']
                        @ map (\<lambda>(color, coverage). StWrite color coverage) cmyk_coverage
                  in case calculate_print_cost (globals_of inp) (PRINT_WIDTH inp) (PRINT_HEIGHT inp)
                            cmyk_coverage (INK_USAGE_PER_M2 (PRINTERS (printer_choice inp))) of
                       Inl e \<Rightarrow> \<lparr>shown = coverage_shown, raised = Some e\<rparr>
                     | Inr pricing \<Rightarrow>
                         \<lparr>shown = coverage_shown @ [StSubheader ''Cost Calculation'']
                                  @ map (\<lambda>(item, cost). StWrite item cost) pricing,
                          raised = None\<rparr>))))"

text \<open>Python's \<open><=\<close> on floats: a comparison with NaN is false.\<close>

fun fle :: "pyfloat \<Rightarrow> pyfloat \<Rightarrow> bool" where
  "fle (Fin a) (Fin b) = (a \<le> b)"
| "fle NaN y = False"
| "fle (Fin a) NaN = False"

section \<open>The cost computation as the specification words it\<close>

text \<open>
  The specification's data: the four ink channels, a coverage result as a percentage per
  channel, and the print job configuration. The definitions below follow the formulas
  of the specification; they are compared with the code's functions in the theorems.
\<close>

datatype InkChannel = Cyan | Magenta | Yellow | Black

record PrintJobConfig =
  inkUsagePerM2 :: "InkChannel \<Rightarrow> real"
  inkPricePerUnit :: "InkChannel \<Rightarrow> real"
  paperCostPerSheet :: real
  markupFraction :: real
  widthMm :: real
  heightMm :: real

definition spec_area :: "PrintJobConfig \<Rightarrow> real" where
  "spec_area cfg = (widthMm cfg / 1000) * (heightMm cfg / 1000)"

definition spec_channelCost :: "(InkChannel \<Rightarrow> real) \<Rightarrow> PrintJobConfig \<Rightarrow> InkChannel \<Rightarrow> real" where
  "spec_channelCost coveragePercent cfg ch =
     (coveragePercent ch / 100) * spec_area cfg * inkUsagePerM2 cfg ch * inkPricePerUnit cfg ch"

definition spec_totalInkCost :: "(InkChannel \<Rightarrow> real) \<Rightarrow> PrintJobConfig \<Rightarrow> real" where
  "spec_totalInkCost cov cfg = (\<Sum>ch\<leftarrow>[Cyan, Magenta, Yellow, Black]. spec_channelCost cov cfg ch)"

definition spec_totalCost :: "(InkChannel \<Rightarrow> real) \<Rightarrow> PrintJobConfig \<Rightarrow> real" where
  "spec_totalCost cov cfg = spec_totalInkCost cov cfg + paperCostPerSheet cfg"

definition spec_finalPrice :: "(InkChannel \<Rightarrow> real) \<Rightarrow> PrintJobConfig \<Rightarrow> real" where
  "spec_finalPrice cov cfg = spec_totalCost cov cfg * (1 + markupFraction cfg)"

fun key_of :: "InkChannel \<Rightarrow> string" where
  "key_of Cyan = ''Cyan''"
| "key_of Magenta = ''Magenta''"
| "key_of Yellow = ''Yellow''"
| "key_of Black = ''Black (K)''"

definition dict_of :: "(InkChannel \<Rightarrow> 'v) \<Rightarrow> 'v dict" where
  "dict_of f = map (\<lambda>ch. (key_of ch, f ch)) [Cyan, Magenta, Yellow, Black]"

definition coverage_strings :: "(InkChannel \<Rightarrow> real) \<Rightarrow> fstr dict" where
  "coverage_strings cov = dict_of (\<lambda>ch. percent_str (Fin (cov ch)))"

definition globals_for :: "PrintJobConfig \<Rightarrow> globals" where
  "globals_for cfg =
     \<lparr>ink_prices = dict_of (inkPricePerUnit cfg), paper_cost = paperCostPerSheet cfg,
      markup = markupFraction cfg\<rparr>"

definition ink_cost_for :: "PrintJobConfig \<Rightarrow> (InkChannel \<Rightarrow> real) \<Rightarrow> py_error + pyfloat" where
  "ink_cost_for cfg cov =
     total_ink_cost (globals_for cfg) (widthMm cfg) (heightMm cfg) (coverage_strings cov)
       (dict_of (inkUsagePerM2 cfg))"

text \<open>The A4 job of the specification's worked example.\<close>

definition a4_job :: PrintJobConfig where
  "a4_job = \<lparr>inkUsagePerM2 = (\<lambda>ch. 5529 / 100), inkPricePerUnit = (\<lambda>ch. 1),
             paperCostPerSheet = 28 / 10, markupFraction = 3 / 10, widthMm = 210, heightMm = 297\<rparr>"

section \<open>The black coverage as the specification words it\<close>

text \<open>
  The black level of a pixel from its normalised red, green and blue values, the plain
  mean of a list, rounding to two decimals, and the black coverage of an image: the mean
  of the black level over all pixels, as a percentage, rounded.
\<close>

definition spec_K :: "real \<Rightarrow> real \<Rightarrow> real \<Rightarrow> real" where
  "spec_K R G B = 1 - Max {R, G, B}"

definition spec_mean :: "real list \<Rightarrow> real" where
  "spec_mean xs = sum_list xs / real (length xs)"

definition spec_round2 :: "real \<Rightarrow> real" where
  "spec_round2 x = real_of_int (round_half_even (x * 100)) / 100"

definition spec_K_coverage :: "image \<Rightarrow> real" where
  "spec_K_coverage img =
     spec_round2 (spec_mean (map (\<lambda>(b, g, r). spec_K (norm255 r) (norm255 g) (norm255 b)) (concat img)) * 100)"

section \<open>What the script shows, and the values between the two functions\<close>

text \<open>The widgets' default values.\<close>

definition default_inputs :: inputs where
  "default_inputs =
     \<lparr>printer_choice = Epson_Workforce_C5290, paper_cost_input = 28 / 10, markup_slider = 30,
      print_width_in = 827 / 100, print_height_in = 1169 / 100, ink_price_input = (\<lambda>color. 1)\<rparr>"

text \<open>The two things the script can show for an uploaded file.\<close>

definition error_shown :: "st_event list" where
  "error_shown = [StImage, StError ''Error processing the image. Please try another file.'']"

definition results_shown :: "fstr dict \<Rightarrow> fstr dict \<Rightarrow> st_event list" where
  "results_shown cov pricing =
     [StImage, StSubheader ''CMYK Ink Coverage'']
     @ map (\<lambda>(color, coverage). StWrite color coverage) cov
     @ [StSubheader ''Cost Calculation'']
     @ map (\<lambda>(item, cost). StWrite item cost) pricing"

text \<open>A number with at most two decimals: a whole number of hundredths.\<close>

fun two_decimals :: "pyfloat \<Rightarrow> bool" where
  "two_decimals (Fin v) = (real_of_int \<lfloor>v * 100\<rfloor> = v * 100)"
| "two_decimals NaN = False"

text \<open>
  The per-channel means of \<open>calculate_cmyk_coverage\<close> as percentages, before
  \<open>round\<close> is applied, and the values it reports after rounding.
\<close>

fun unrounded_percent :: "image \<Rightarrow> InkChannel \<Rightarrow> pyfloat" where
  "unrounded_percent img Cyan = fmul (np_mean (positive (channel C_px img))) (Fin 100)"
| "unrounded_percent img Magenta = fmul (np_mean (positive (channel M_px img))) (Fin 100)"
| "unrounded_percent img Yellow = fmul (np_mean (positive (channel Y_px img))) (Fin 100)"
| "unrounded_percent img Black = fmul (np_mean (channel K_px img)) (Fin 100)"

definition reported_percent :: "image \<Rightarrow> InkChannel \<Rightarrow> pyfloat" where
  "reported_percent img ch = py_round (unrounded_percent img ch) 2"

text \<open>
  The sum of the cost calculation, taken over the four channels with the given
  percentages.
\<close>

definition ink_cost_from :: "(InkChannel \<Rightarrow> pyfloat) \<Rightarrow> PrintJobConfig \<Rightarrow> pyfloat" where
  "ink_cost_from percent cfg =
     foldl fadd (Fin 0)
       (map (\<lambda>ch. fmul (fmul (fmul (fdiv (percent ch) (Fin 100)) (Fin (spec_area cfg)))
                     (Fin (inkUsagePerM2 cfg ch))) (Fin (inkPricePerUnit cfg ch)))
          [Cyan, Magenta, Yellow, Black])"

text \<open>
  Concrete jobs and a concrete image: one square metre at usage 1 and price 100 per
  channel, the A4 job with a paper cost of 2.805, and a row of two pixels.
\<close>

definition square_metre_job :: PrintJobConfig where
  "square_metre_job = \<lparr>inkUsagePerM2 = (\<lambda>ch. 1), inkPricePerUnit = (\<lambda>ch. 100),
               paperCostPerSheet = 0, markupFraction = 0, widthMm = 1000, heightMm = 1000\<rparr>"

definition odd_paper_job :: PrintJobConfig where
  "odd_paper_job = a4_job\<lparr>paperCostPerSheet := 2805 / 1000\<rparr>"

definition two_tone :: image where
  "two_tone = [[(10, 20, 30), (30, 20, 10)]]"

section \<open>Properties\<close>

lemma norm255_range: "0 \<le> norm255 v \<and> norm255 v \<le> 1"
proof -
  have "unat v < 2 ^ 8" using unsigned_less [of v, where ?'a = nat] by simp
  then have "unat v \<le> 255" by simp
  then have "real (unat v) \<le> real 255" by (rule of_nat_mono)
  moreover have "0 \<le> real (unat v)" by (rule of_nat_0_le_iff)
  ultimately show ?thesis unfolding norm255_def by (simp del: of_nat_unat)
qed

lemma K_px_range: "0 \<le> K_px p \<and> K_px p \<le> 1"
proof -
  obtain b g r where p: "p = (b, g, r)" by (cases p)
  show ?thesis
    using norm255_range [of b] norm255_range [of g] norm255_range [of r]
    by (simp add: p max_def)
qed

lemma eps_pos: "0 < eps"
  by (simp add: eps_def)

text \<open>
  Claim C7. For every pixel the denominator \<open>1 - K + 1e-10\<close> of the per-pixel C, M and Y
  formulas is strictly positive, so the three divisions are well defined; for a pure
  black pixel, where \<open>K = 1\<close>, the denominator is exactly the epsilon.
\<close>

theorem denominator_positive:
  "0 < 1 - K_px p + eps \<and> 0 < denom p \<and> K_px (0, 0, 0) = 1 \<and> denom (0, 0, 0) = eps"
proof -
  have "K_px p \<le> 1" using K_px_range [of p] by simp
  then have "0 < 1 - K_px p + eps" using eps_pos by linarith
  moreover have "K_px (0, 0, 0) = 1" by (simp add: norm255_def)
  ultimately show ?thesis by (simp add: denom_def)
qed

theorem denominator_positive_witness:
  "0 < 1 - K_px (255, 0, 17) + eps \<and> 0 < denom (255, 0, 17) \<and> K_px (0, 0, 0) = 1
     \<and> denom (0, 0, 0) = eps"
  by (rule denominator_positive)

lemmas coverage_eval =
  channel_def ink_percentage_def positive_def np_mean_def norm255_def denom_def eps_def
  percent_str_def fmul_def round_half_even_def

text \<open>
  Claim C1. A channel with no strictly positive value should be reported as 0 percent.
  The code takes the mean of the empty selection instead: for an all-white image the
  cyan, magenta and yellow entries are NaN, and only the black entry is 0.
\<close>

theorem white_image_coverage:
  "calculate_cmyk_coverage (Some [[(255, 255, 255), (255, 255, 255)]]) =
     Some [(''Cyan'', FStr [] NaN ''%''), (''Magenta'', FStr [] NaN ''%''),
           (''Yellow'', FStr [] NaN ''%''), (''Black (K)'', FStr [] (Fin 0) ''%'')]"
  by (simp add: coverage_eval)

text \<open>
  Claim C2. For an all-cyan image (blue 255, green 255, red 0) the black entry is 0 and
  the cyan entry is 100, as claimed, but the magenta and yellow entries are NaN, not 0:
  neither channel has a strictly positive value.
\<close>

theorem cyan_image_coverage:
  "calculate_cmyk_coverage (Some [[(255, 255, 0), (255, 255, 0)], [(255, 255, 0), (255, 255, 0)]]) =
     Some [(''Cyan'', FStr [] (Fin 100) ''%''), (''Magenta'', FStr [] NaN ''%''),
           (''Yellow'', FStr [] NaN ''%''), (''Black (K)'', FStr [] (Fin 0) ''%'')]"
  by (simp add: coverage_eval)

subsection \<open>Rounding\<close>

lemma round_half_even_bounds: "\<lfloor>x\<rfloor> \<le> round_half_even x \<and> round_half_even x \<le> \<lfloor>x\<rfloor> + 1"
  by (simp add: round_half_even_def Let_def)

lemma round_half_even_mono:
  assumes "x \<le> y"
  shows "round_half_even x \<le> round_half_even y"
proof (cases "\<lfloor>x\<rfloor> = \<lfloor>y\<rfloor>")
  case True
  then show ?thesis using assms by (auto simp add: round_half_even_def Let_def)
next
  case False
  with assms have "\<lfloor>x\<rfloor> < \<lfloor>y\<rfloor>" using floor_mono [of x y] by linarith
  then have "\<lfloor>x\<rfloor> + 1 \<le> \<lfloor>y\<rfloor>" by simp
  then show ?thesis
    using round_half_even_bounds [of x] round_half_even_bounds [of y] by linarith
qed

lemma py_round_mono:
  assumes "a \<le> b"
  shows "\<exists>a' b'. py_round (Fin a) n = Fin a' \<and> py_round (Fin b) n = Fin b' \<and> a' \<le> b'"
proof -
  have "a * 10 ^ n \<le> b * 10 ^ n" using assms by (simp add: mult_right_mono)
  then have "round_half_even (a * 10 ^ n) \<le> round_half_even (b * 10 ^ n)"
    by (rule round_half_even_mono)
  then have "real_of_int (round_half_even (a * 10 ^ n)) / 10 ^ n \<le> real_of_int (round_half_even (b * 10 ^ n)) / 10 ^ n"
    by (simp add: divide_right_mono)
  then show ?thesis by simp
qed

lemma round_half_even_of_int: "round_half_even (of_int k) = k"
  by (simp add: round_half_even_def)

subsection \<open>The cost formulas\<close>

lemma ink_cost_for_eq: "ink_cost_for cfg cov = Inr (Fin (spec_totalInkCost cov cfg))"
  by (simp add: ink_cost_for_def total_ink_cost_def ink_term_def dict_get_def dict_of_def
        coverage_strings_def globals_for_def percent_str_def fadd_def fmul_def fdiv_def
        spec_totalInkCost_def spec_channelCost_def spec_area_def print_area_def)

lemma total_cost_for_eq:
  "total_cost (globals_for cfg) (Fin (spec_totalInkCost cov cfg)) = Fin (spec_totalCost cov cfg)"
  by (simp add: total_cost_def globals_for_def fadd_def spec_totalCost_def)

lemma final_price_for_eq:
  "final_price (globals_for cfg) (Fin (spec_totalCost cov cfg)) = Fin (spec_finalPrice cov cfg)"
  by (simp add: final_price_def globals_for_def fmul_def spec_finalPrice_def)

text \<open>
  Claim C5. Before the output is rounded, the cost calculation computes the print area
  as \<open>(widthMm / 1000) * (heightMm / 1000)\<close>, the total ink cost as the sum over the four
  channels of \<open>(coveragePercent / 100) * printAreaM2 * inkUsagePerM2 * inkPricePerUnit\<close>,
  the total cost as the total ink cost plus the paper cost, and the final price as the
  total cost times \<open>1 + markupFraction\<close>, for every markup fraction (the range 0 to 5
  included); the returned amounts are these values, the paper cost apart, rounded.
\<close>

theorem cost_formulas:
  "print_area (widthMm cfg) (heightMm cfg) = (widthMm cfg / 1000) * (heightMm cfg / 1000)
   \<and> ink_cost_for cfg cov = Inr (Fin (spec_totalInkCost cov cfg))
   \<and> total_cost (globals_for cfg) (Fin (spec_totalInkCost cov cfg)) =
       Fin (spec_totalInkCost cov cfg + paperCostPerSheet cfg)
   \<and> final_price (globals_for cfg) (Fin (spec_totalInkCost cov cfg + paperCostPerSheet cfg)) =
       Fin ((spec_totalInkCost cov cfg + paperCostPerSheet cfg) * (1 + markupFraction cfg))
   \<and> calculate_print_cost (globals_for cfg) (widthMm cfg) (heightMm cfg) (coverage_strings cov)
         (dict_of (inkUsagePerM2 cfg)) =
       Inr [(''Ink Cost'', peso_str (py_round (Fin (spec_totalInkCost cov cfg)) 2)),
            (''Paper Cost'', peso_str (Fin (paperCostPerSheet cfg))),
            (''Total Cost'', peso_str (py_round (Fin (spec_totalCost cov cfg)) 2)),
            (''Final Price (with Markup)'', peso_str (py_round (Fin (spec_finalPrice cov cfg)) 2))]"
  using ink_cost_for_eq [of cfg cov] total_cost_for_eq [of cfg cov] final_price_for_eq [of cfg cov]
  by (simp add: calculate_print_cost_def ink_cost_for_def print_area_def spec_totalCost_def
        spec_finalPrice_def globals_for_def del: py_round.simps)

theorem cost_formulas_witness:
  "print_area 210 297 = 6237 / 100000
   \<and> ink_cost_for a4_job (\<lambda>ch. 10) = Inr (Fin (34484373 / 25000000))
   \<and> calculate_print_cost (globals_for a4_job) 210 297 (coverage_strings (\<lambda>ch. 10))
         (dict_of (inkUsagePerM2 a4_job)) =
       Inr [(''Ink Cost'', peso_str (Fin (138 / 100))),
            (''Paper Cost'', peso_str (Fin (28 / 10))),
            (''Total Cost'', peso_str (Fin (418 / 100))),
            (''Final Price (with Markup)'', peso_str (Fin (543 / 100)))]"
  using cost_formulas [of a4_job "\<lambda>ch. 10"]
  by (simp add: a4_job_def spec_totalInkCost_def spec_channelCost_def spec_area_def
        spec_totalCost_def spec_finalPrice_def round_half_even_def)

subsection \<open>Monotonicity of the cost\<close>

lemma fle_py_round: "a \<le> b \<Longrightarrow> fle (py_round (Fin a) n) (py_round (Fin b) n)"
  using py_round_mono [of a b n] by auto

lemma spec_channelCost_mono:
  assumes "0 \<le> spec_area cfg" "0 \<le> inkUsagePerM2 cfg ch" "0 \<le> inkPricePerUnit cfg ch"
    and "cov ch \<le> cov' ch"
  shows "spec_channelCost cov cfg ch \<le> spec_channelCost cov' cfg ch"
proof -
  have "cov ch / 100 \<le> cov' ch / 100" using assms(4) by simp
  then have "cov ch / 100 * spec_area cfg \<le> cov' ch / 100 * spec_area cfg"
    using assms(1) by (rule mult_right_mono)
  then have "cov ch / 100 * spec_area cfg * inkUsagePerM2 cfg ch
      \<le> cov' ch / 100 * spec_area cfg * inkUsagePerM2 cfg ch"
    using assms(2) by (rule mult_right_mono)
  then have "cov ch / 100 * spec_area cfg * inkUsagePerM2 cfg ch * inkPricePerUnit cfg ch
      \<le> cov' ch / 100 * spec_area cfg * inkUsagePerM2 cfg ch * inkPricePerUnit cfg ch"
    using assms(3) by (rule mult_right_mono)
  then show ?thesis by (simp add: spec_channelCost_def)
qed

lemma spec_totalInkCost_mono:
  assumes "0 \<le> spec_area cfg" "\<And>c. 0 \<le> inkUsagePerM2 cfg c" "\<And>c. 0 \<le> inkPricePerUnit cfg c"
    and "\<And>c. cov c \<le> cov' c"
  shows "spec_totalInkCost cov cfg \<le> spec_totalInkCost cov' cfg"
  using spec_channelCost_mono [of cfg Cyan cov cov'] spec_channelCost_mono [of cfg Magenta cov cov']
    spec_channelCost_mono [of cfg Yellow cov cov'] spec_channelCost_mono [of cfg Black cov cov']
    assms
  by (simp add: spec_totalInkCost_def)

text \<open>
  Claim C8. With a non-negative print area, non-negative ink usage rates and ink prices
  and a non-negative markup, raising the coverage percentage of any one channel and
  keeping everything else never lowers the total ink cost, the total cost or the final
  price, before rounding and as rounded for display.
\<close>

theorem cost_monotone:
  assumes area: "0 \<le> print_area (widthMm cfg) (heightMm cfg)"
    and usage: "\<And>c. 0 \<le> inkUsagePerM2 cfg c"
    and price: "\<And>c. 0 \<le> inkPricePerUnit cfg c"
    and mk: "0 \<le> markupFraction cfg"
    and up: "cov ch \<le> p"
  shows "\<exists>i i'. ink_cost_for cfg cov = Inr i \<and> ink_cost_for cfg (cov(ch := p)) = Inr i'
           \<and> fle i i'
           \<and> fle (total_cost (globals_for cfg) i) (total_cost (globals_for cfg) i')
           \<and> fle (final_price (globals_for cfg) (total_cost (globals_for cfg) i))
                 (final_price (globals_for cfg) (total_cost (globals_for cfg) i'))
           \<and> fle (py_round i 2) (py_round i' 2)
           \<and> fle (py_round (total_cost (globals_for cfg) i) 2)
                 (py_round (total_cost (globals_for cfg) i') 2)
           \<and> fle (py_round (final_price (globals_for cfg) (total_cost (globals_for cfg) i)) 2)
                 (py_round (final_price (globals_for cfg) (total_cost (globals_for cfg) i')) 2)"
proof -
  let ?cov' = "cov(ch := p)"
  have a: "0 \<le> spec_area cfg" using area by (simp add: print_area_def spec_area_def)
  have pt: "\<And>c. cov c \<le> ?cov' c" using up by simp
  have ink: "spec_totalInkCost cov cfg \<le> spec_totalInkCost ?cov' cfg"
    using a usage price pt by (rule spec_totalInkCost_mono)
  then have tot: "spec_totalCost cov cfg \<le> spec_totalCost ?cov' cfg"
    by (simp add: spec_totalCost_def)
  have "0 \<le> 1 + markupFraction cfg" using mk by simp
  with tot have fin: "spec_finalPrice cov cfg \<le> spec_finalPrice ?cov' cfg"
    unfolding spec_finalPrice_def by (rule mult_right_mono)
  show ?thesis
    using ink tot fin fle_py_round [OF ink, of 2] fle_py_round [OF tot, of 2]
      fle_py_round [OF fin, of 2]
    by (simp add: ink_cost_for_eq total_cost_for_eq final_price_for_eq del: py_round.simps)
qed

theorem cost_monotone_witness:
  "\<exists>i i'. ink_cost_for a4_job (\<lambda>c. 10) = Inr i
           \<and> ink_cost_for a4_job ((\<lambda>c. 10)(Cyan := 20)) = Inr i'
           \<and> fle i i'
           \<and> fle (total_cost (globals_for a4_job) i) (total_cost (globals_for a4_job) i')
           \<and> fle (final_price (globals_for a4_job) (total_cost (globals_for a4_job) i))
                 (final_price (globals_for a4_job) (total_cost (globals_for a4_job) i'))
           \<and> fle (py_round i 2) (py_round i' 2)
           \<and> fle (py_round (total_cost (globals_for a4_job) i) 2)
                 (py_round (total_cost (globals_for a4_job) i') 2)
           \<and> fle (py_round (final_price (globals_for a4_job) (total_cost (globals_for a4_job) i)) 2)
                 (py_round (final_price (globals_for a4_job) (total_cost (globals_for a4_job) i')) 2)"
proof (rule cost_monotone)
  show "0 \<le> print_area (widthMm a4_job) (heightMm a4_job)"
    by (simp add: a4_job_def print_area_def)
  show "\<And>c. 0 \<le> inkUsagePerM2 a4_job c" by (simp add: a4_job_def)
  show "\<And>c. 0 \<le> inkPricePerUnit a4_job c" by (simp add: a4_job_def)
  show "0 \<le> markupFraction a4_job" by (simp add: a4_job_def)
  show "(\<lambda>c. 10) Cyan \<le> (20::real)" by simp
qed

subsection \<open>The black channel\<close>

lemma K_px_spec: "K_px (b, g, r) = spec_K (norm255 r) (norm255 g) (norm255 b)"
  by (simp add: spec_K_def max.commute max.left_commute)

lemma K_channel_spec:
  "channel K_px img = map (\<lambda>(b, g, r). spec_K (norm255 r) (norm255 g) (norm255 b)) (concat img)"
  unfolding channel_def by (rule map_cong) (auto simp add: K_px_spec simp del: K_px.simps)

text \<open>
  Claim C6. The black level of a pixel is one minus the largest of its normalised
  red, green and blue values, and the reported black coverage of an image with at least
  one pixel is the mean of the black level over all its pixels, none filtered out,
  times 100 and rounded to two decimals.
\<close>

theorem black_coverage_unconditional_mean:
  assumes "concat img \<noteq> []"
  shows "K_px (b, g, r) = 1 - Max {norm255 r, norm255 g, norm255 b}
    \<and> (\<exists>d. calculate_cmyk_coverage (Some img) = Some d
          \<and> dict_get d ''Black (K)'' = Inr (percent_str (Fin (spec_K_coverage img))))"
proof -
  have "K_px (b, g, r) = 1 - Max {norm255 r, norm255 g, norm255 b}"
    using K_px_spec [of b g r] by (simp only: spec_K_def)
  moreover have "np_mean (channel K_px img) = Fin (spec_mean (channel K_px img))"
    using assms by (simp add: np_mean_def spec_mean_def channel_def)
  then have "py_round (fmul (np_mean (channel K_px img)) (Fin 100)) 2 = Fin (spec_K_coverage img)"
    by (simp add: fmul_def spec_K_coverage_def spec_round2_def K_channel_spec)
  ultimately show ?thesis by (simp add: dict_get_def del: K_px.simps)
qed

theorem black_coverage_unconditional_mean_witness:
  "K_px (255, 0, 17) = 1 - Max {norm255 17, norm255 0, norm255 255}
    \<and> (\<exists>d. calculate_cmyk_coverage (Some [[(0, 0, 0), (255, 255, 255)]]) = Some d
          \<and> dict_get d ''Black (K)'' = Inr (percent_str (Fin 50)))"
proof -
  have ne: "concat [[(0, 0, 0), (255, 255, 255)]] \<noteq> ([] :: pixel list)" by simp
  have "spec_K_coverage [[(0, 0, 0), (255, 255, 255)]] = 50"
    by (simp add: spec_K_coverage_def spec_round2_def spec_mean_def spec_K_def norm255_def
          round_half_even_def)
  then show ?thesis
    using black_coverage_unconditional_mean [OF ne, of 255 0 17] by simp
qed

subsection \<open>The mean of the strictly positive values\<close>

lemma norm255_gap:
  assumes "norm255 a < norm255 b"
  shows "1 / 255 \<le> norm255 b - norm255 a"
proof -
  have "real (unat a) < real (unat b)" using assms by (simp add: norm255_def del: of_nat_unat)
  then have "unat a < unat b" by (simp only: of_nat_less_iff)
  then have "unat a + 1 \<le> unat b" by simp
  then have "real (unat a + 1) \<le> real (unat b)" by (rule of_nat_mono)
  then have "real (unat a) + 1 \<le> real (unat b)" by (simp del: of_nat_unat)
  then show ?thesis by (simp add: norm255_def field_simps del: of_nat_unat)
qed

lemma max_gap:
  assumes "norm255 x < max (max (norm255 b) (norm255 g)) (norm255 r)"
  shows "1 / 255 \<le> max (max (norm255 b) (norm255 g)) (norm255 r) - norm255 x"
  using assms norm255_gap [of x b] norm255_gap [of x g] norm255_gap [of x r]
  by (auto simp add: max_def split: if_splits)

lemma quotient_bound:
  assumes n: "1 / 255 \<le> (n::real)" and d: "0 < d" "d \<le> 1 + eps"
  shows "1 / 256 \<le> n / d"
proof -
  have "d \<le> 256 / 255" using d(2) by (simp add: eps_def)
  then have "d / 256 \<le> 1 / 255" by simp
  then have "d / 256 \<le> n" using n by linarith
  then have "1 / 256 * d \<le> n" by simp
  then show ?thesis using d(1) by (simp only: pos_le_divide_eq)
qed

lemma channel_value_bound:
  assumes "0 < (1 - norm255 x - K_px (b, g, r)) / denom (b, g, r)"
  shows "1 / 256 \<le> (1 - norm255 x - K_px (b, g, r)) / denom (b, g, r)"
proof -
  let ?mx = "max (max (norm255 b) (norm255 g)) (norm255 r)"
  have dpos: "0 < denom (b, g, r)"
    using K_px_range [of "(b, g, r)"] eps_pos by (simp add: denom_def del: K_px.simps)
  have dle: "denom (b, g, r) \<le> 1 + eps"
    using K_px_range [of "(b, g, r)"] by (simp add: denom_def del: K_px.simps)
  have num: "1 - norm255 x - K_px (b, g, r) = ?mx - norm255 x" by simp
  have "0 < 1 - norm255 x - K_px (b, g, r)"
    using assms dpos by (simp only: zero_less_divide_iff) linarith
  then have "norm255 x < ?mx" using num by linarith
  then have "1 / 255 \<le> ?mx - norm255 x" by (rule max_gap)
  then have "1 / 255 \<le> 1 - norm255 x - K_px (b, g, r)" using num by linarith
  then show ?thesis using dpos dle by (rule quotient_bound)
qed

lemma C_px_bound: "0 < C_px p \<Longrightarrow> 1 / 256 \<le> C_px p"
  using channel_value_bound by (cases p) (simp del: K_px.simps)

lemma M_px_bound: "0 < M_px p \<Longrightarrow> 1 / 256 \<le> M_px p"
  using channel_value_bound by (cases p) (simp del: K_px.simps)

lemma Y_px_bound: "0 < Y_px p \<Longrightarrow> 1 / 256 \<le> Y_px p"
  using channel_value_bound by (cases p) (simp del: K_px.simps)

lemma sum_list_lower:
  assumes "\<And>x. x \<in> set xs \<Longrightarrow> c \<le> (x::real)"
  shows "c * real (length xs) \<le> sum_list xs"
  using assms
proof (induction xs)
  case Nil
  then show ?case by simp
next
  case (Cons a xs)
  then have "c \<le> a" and "c * real (length xs) \<le> sum_list xs" by simp_all
  then show ?case by (simp add: algebra_simps)
qed

lemma mean_lower:
  assumes "xs \<noteq> []" and "\<And>x. x \<in> set xs \<Longrightarrow> c \<le> (x::real)"
  shows "c \<le> sum_list xs / real (length xs)"
proof -
  have "0 < real (length xs)" using assms(1) by simp
  moreover have "c * real (length xs) \<le> sum_list xs" using assms(2) by (rule sum_list_lower)
  ultimately show ?thesis by (simp only: pos_le_divide_eq)
qed

lemma sum_list_pos_real:
  assumes "xs \<noteq> []" and "\<And>x. x \<in> set xs \<Longrightarrow> 0 < (x::real)"
  shows "0 < sum_list xs"
  using assms
proof (induction xs)
  case Nil
  then show ?case by simp
next
  case (Cons a xs)
  have a: "0 < a" using Cons.prems(2) by simp
  show ?case
  proof (cases "xs = []")
    case True
    with a show ?thesis by simp
  next
    case False
    then have "0 < sum_list xs" using Cons by simp
    with a show ?thesis by simp
  qed
qed

lemma np_mean_positive:
  assumes "positive xs \<noteq> []"
  shows "\<exists>m. np_mean (positive xs) = Fin m \<and> 0 < m"
proof -
  have "\<And>x. x \<in> set (positive xs) \<Longrightarrow> 0 < x" by (simp add: positive_def)
  with assms have "0 < sum_list (positive xs)" by (rule sum_list_pos_real)
  moreover have "0 < real (length (positive xs))" using assms by simp
  ultimately have "0 < sum_list (positive xs) / real (length (positive xs))"
    by (rule divide_pos_pos)
  then show ?thesis using assms by (simp add: np_mean_def)
qed

lemma positive_mean_pos:
  assumes "p \<in> set (concat img)" "0 < f p"
  shows "\<exists>m. np_mean (positive (channel f img)) = Fin m \<and> 0 < m"
proof -
  have "f p \<in> set (positive (channel f img))"
    using assms by (auto simp add: positive_def channel_def)
  then have "positive (channel f img) \<noteq> []" by auto
  then show ?thesis by (rule np_mean_positive)
qed

lemma np_mean_positive_nonzero: "np_mean (positive xs) \<noteq> Fin 0"
proof (cases "positive xs = []")
  case True
  then show ?thesis by (simp add: np_mean_def)
next
  case False
  then show ?thesis using np_mean_positive [of xs] by auto
qed

lemma round_half_even_pos: "1 \<le> x \<Longrightarrow> 1 \<le> round_half_even x"
  using round_half_even_mono [of 1 x] round_half_even_of_int [of 1] by simp

lemma ink_percentage_nonzero:
  assumes "\<And>p. 0 < f p \<Longrightarrow> 1 / 256 \<le> f p"
  shows "ink_percentage (channel f img) \<noteq> Fin 0"
proof (cases "positive (channel f img) = []")
  case True
  then show ?thesis by (simp add: ink_percentage_def np_mean_def fmul_def)
next
  case False
  let ?xs = "positive (channel f img)"
  let ?m = "sum_list ?xs / real (length ?xs)"
  have "\<And>x. x \<in> set ?xs \<Longrightarrow> 1 / 256 \<le> x"
    using assms by (auto simp add: positive_def channel_def)
  with False have "1 / 256 \<le> ?m" by (rule mean_lower)
  then have "1 \<le> ?m * 100 * 10 ^ 2" by simp
  then have "1 \<le> round_half_even (?m * 100 * 10 ^ 2)" by (rule round_half_even_pos)
  then have "real_of_int (round_half_even (?m * 100 * 10 ^ 2)) / 10 ^ 2 \<noteq> 0" by simp
  then show ?thesis using False by (simp add: ink_percentage_def np_mean_def fmul_def)
qed

lemma ink_percentage_empty: "positive ch = [] \<Longrightarrow> ink_percentage ch = NaN"
  by (simp add: ink_percentage_def np_mean_def fmul_def)

lemma ink_percentage_of_mean:
  "np_mean (positive ch) = Fin m \<Longrightarrow> ink_percentage ch = py_round (Fin (m * 100)) 2"
  by (simp add: ink_percentage_def fmul_def)

lemma round_half_even_lower: "real_of_int k \<le> x \<Longrightarrow> k \<le> round_half_even x"
  using round_half_even_mono [of "real_of_int k" x] round_half_even_of_int [of k] by simp

lemma ink_percentage_lower:
  assumes bound: "\<And>p. 0 < f p \<Longrightarrow> 1 / 256 \<le> f p"
    and ne: "positive (channel f img) \<noteq> []"
  shows "\<exists>m v. np_mean (positive (channel f img)) = Fin m \<and> 0 < m
           \<and> ink_percentage (channel f img) = py_round (Fin (m * 100)) 2
           \<and> ink_percentage (channel f img) = Fin v \<and> 39 / 100 \<le> v"
proof -
  let ?xs = "positive (channel f img)"
  obtain m where m: "np_mean ?xs = Fin m" "0 < m"
    using np_mean_positive [OF ne] by blast
  have mdef: "m = sum_list ?xs / real (length ?xs)"
    using m(1) ne by (simp add: np_mean_def)
  have "\<And>x. x \<in> set ?xs \<Longrightarrow> 1 / 256 \<le> x"
    using bound by (auto simp add: positive_def channel_def)
  with ne have "1 / 256 \<le> m" unfolding mdef by (rule mean_lower)
  then have "real_of_int 39 \<le> m * 100 * 10 ^ 2" by simp
  then have "39 \<le> round_half_even (m * 100 * 10 ^ 2)" by (rule round_half_even_lower)
  then have "real_of_int 39 \<le> real_of_int (round_half_even (m * 100 * 10 ^ 2))"
    by (simp only: of_int_le_iff)
  then have v: "39 / 100 \<le> real_of_int (round_half_even (m * 100 * 10 ^ 2)) / 10 ^ 2" by simp
  have r: "ink_percentage (channel f img) = py_round (Fin (m * 100)) 2"
    using m(1) by (rule ink_percentage_of_mean)
  have "ink_percentage (channel f img) = Fin (real_of_int (round_half_even (m * 100 * 10 ^ 2)) / 10 ^ 2)"
    unfolding r by simp
  with m r v show ?thesis by blast
qed

text \<open>
  Claim C10. For each of the cyan, magenta and yellow channels of any image: when at
  least one per-pixel value is strictly positive, the mean taken before rounding is a
  number and strictly positive, since it averages the strictly positive values only,
  and the reported percentage is that mean times 100, rounded. When no value is
  positive the mean is NaN and so is the reported percentage. The mean is therefore
  never 0, and a reported 0.00 never comes from a mean of 0. The reported percentage
  is in fact never 0.00: a positive per-pixel value is at least 1/256, so the rounded
  percentage of a channel with a positive value is at least 0.39.
\<close>

theorem positive_values_give_positive_mean:
  assumes "f = C_px \<or> f = M_px \<or> f = Y_px"
  shows "((\<exists>p\<in>set (concat img). 0 < f p) \<longrightarrow>
            (\<exists>m v. np_mean (positive (channel f img)) = Fin m \<and> 0 < m
               \<and> ink_percentage (channel f img) = py_round (Fin (m * 100)) 2
               \<and> ink_percentage (channel f img) = Fin v \<and> 0 < v \<and> 39 / 100 \<le> v))
    \<and> ((\<forall>p\<in>set (concat img). \<not> 0 < f p) \<longrightarrow>
            np_mean (positive (channel f img)) = NaN \<and> ink_percentage (channel f img) = NaN)
    \<and> np_mean (positive (channel f img)) \<noteq> Fin 0
    \<and> ink_percentage (channel f img) \<noteq> Fin 0"
proof -
  have bound: "\<And>p. 0 < f p \<Longrightarrow> 1 / 256 \<le> f p"
    using assms C_px_bound M_px_bound Y_px_bound by blast
  have a: "\<exists>m v. np_mean (positive (channel f img)) = Fin m \<and> 0 < m
               \<and> ink_percentage (channel f img) = py_round (Fin (m * 100)) 2
               \<and> ink_percentage (channel f img) = Fin v \<and> 0 < v \<and> 39 / 100 \<le> v"
    if "\<exists>p\<in>set (concat img). 0 < f p"
  proof -
    from that have "positive (channel f img) \<noteq> []"
      by (auto simp add: positive_def channel_def filter_empty_conv)
    with bound obtain m v where mv: "np_mean (positive (channel f img)) = Fin m" "0 < m"
        "ink_percentage (channel f img) = py_round (Fin (m * 100)) 2"
        "ink_percentage (channel f img) = Fin v" "39 / 100 \<le> v"
      using ink_percentage_lower [of f img] by blast
    from mv(5) have "0 < v" by simp
    with mv show ?thesis by blast
  qed
  have b: "np_mean (positive (channel f img)) = NaN \<and> ink_percentage (channel f img) = NaN"
    if "\<forall>p\<in>set (concat img). \<not> 0 < f p"
  proof -
    from that have e: "positive (channel f img) = []"
      by (auto simp add: positive_def channel_def filter_empty_conv)
    then show ?thesis using ink_percentage_empty [OF e] by (simp add: np_mean_def)
  qed
  have c: "np_mean (positive (channel f img)) \<noteq> Fin 0"
    by (rule np_mean_positive_nonzero)
  have d: "ink_percentage (channel f img) \<noteq> Fin 0"
    using bound by (rule ink_percentage_nonzero)
  from a b c d show ?thesis by blast
qed

theorem positive_values_give_positive_mean_witness:
  "(\<exists>p\<in>set (concat [[(255, 255, 0), (255, 255, 255)]]). 0 < C_px p)
    \<and> (\<exists>m v. np_mean (positive (channel C_px [[(255, 255, 0), (255, 255, 255)]])) = Fin m \<and> 0 < m
          \<and> ink_percentage (channel C_px [[(255, 255, 0), (255, 255, 255)]]) = py_round (Fin (m * 100)) 2
          \<and> ink_percentage (channel C_px [[(255, 255, 0), (255, 255, 255)]]) = Fin v \<and> 0 < v
          \<and> 39 / 100 \<le> v)
    \<and> ink_percentage (channel C_px [[(255, 255, 0), (255, 255, 255)]]) \<noteq> Fin 0"
proof -
  have ex: "\<exists>p\<in>set (concat [[(255, 255, 0), (255, 255, 255)]]). 0 < C_px p"
    by (simp add: norm255_def denom_def eps_def)
  have "C_px = C_px \<or> C_px = M_px \<or> C_px = Y_px" by simp
  from positive_values_give_positive_mean [OF this, of "[[(255, 255, 0), (255, 255, 255)]]"] ex
  show ?thesis by blast
qed

subsection \<open>The script: what an upload shows\<close>

lemma ink_cost_never_raises:
  "\<exists>ink. total_ink_cost (globals_of inp) w h
      [(''Cyan'', percent_str c), (''Magenta'', percent_str m), (''Yellow'', percent_str y),
       (''Black (K)'', percent_str k)]
      (INK_USAGE_PER_M2 (PRINTERS (printer_choice inp))) = Inr ink"
  by (cases "printer_choice inp")
    (simp_all add: total_ink_cost_def ink_term_def dict_get_def globals_of_def percent_str_def)

lemma pricing_never_raises:
  "\<exists>pricing. calculate_print_cost (globals_of inp) w h
      [(''Cyan'', percent_str c), (''Magenta'', percent_str m), (''Yellow'', percent_str y),
       (''Black (K)'', percent_str k)]
      (INK_USAGE_PER_M2 (PRINTERS (printer_choice inp))) = Inr pricing
    \<and> map fst pricing = [''Ink Cost'', ''Paper Cost'', ''Total Cost'', ''Final Price (with Markup)'']"
proof -
  obtain ink where "total_ink_cost (globals_of inp) w h
      [(''Cyan'', percent_str c), (''Magenta'', percent_str m), (''Yellow'', percent_str y),
       (''Black (K)'', percent_str k)]
      (INK_USAGE_PER_M2 (PRINTERS (printer_choice inp))) = Inr ink"
    using ink_cost_never_raises by blast
  then show ?thesis by (simp add: calculate_print_cost_def)
qed

text \<open>
  Claim C9. An upload that cannot be decoded should give the error message alone, and
  one that decodes the full results. The script calls \<open>st.image\<close> on the file before
  it decodes it: when that call raises, as it does on bytes that are no image, the
  script ends with the exception and shows neither the error message of its last branch
  nor any result. When the call succeeds the claim holds: the coverage function returns
  \<open>None\<close> exactly when the decoder does, the script then shows the error message and
  nothing else, and for a decoded image it shows the four coverage entries and the four
  cost entries, with no exception from the cost calculation.
\<close>

theorem upload_outcomes:
  "(\<forall>e. st_image content = Some e \<longrightarrow>
        script st_image imread inp (Some content) = \<lparr>shown = [], raised = Some e\<rparr>)
   \<and> (st_image content = None \<and> imread content = None \<longrightarrow>
        script st_image imread inp (Some content) = \<lparr>shown = error_shown, raised = None\<rparr>)
   \<and> (\<forall>img. st_image content = None \<and> imread content = Some img \<longrightarrow>
        (\<exists>cov pricing.
           calculate_cmyk_coverage (Some img) = Some cov
           \<and> map fst cov = [''Cyan'', ''Magenta'', ''Yellow'', ''Black (K)'']
           \<and> calculate_print_cost (globals_of inp) (PRINT_WIDTH inp) (PRINT_HEIGHT inp) cov
                (INK_USAGE_PER_M2 (PRINTERS (printer_choice inp))) = Inr pricing
           \<and> map fst pricing =
                [''Ink Cost'', ''Paper Cost'', ''Total Cost'', ''Final Price (with Markup)'']
           \<and> script st_image imread inp (Some content) =
                \<lparr>shown = results_shown cov pricing, raised = None\<rparr>))
   \<and> (calculate_cmyk_coverage (imread content) = None \<longleftrightarrow> imread content = None)"
proof -
  have a: "script st_image imread inp (Some content) = \<lparr>shown = [], raised = Some e\<rparr>"
    if "st_image content = Some e" for e
    using that by (simp add: script_def)
  have b: "st_image content = None \<and> imread content = None \<longrightarrow>
        script st_image imread inp (Some content) = \<lparr>shown = error_shown, raised = None\<rparr>"
    by (simp add: script_def error_shown_def)
  have c: "\<exists>cov pricing.
           calculate_cmyk_coverage (Some img) = Some cov
           \<and> map fst cov = [''Cyan'', ''Magenta'', ''Yellow'', ''Black (K)'']
           \<and> calculate_print_cost (globals_of inp) (PRINT_WIDTH inp) (PRINT_HEIGHT inp) cov
                (INK_USAGE_PER_M2 (PRINTERS (printer_choice inp))) = Inr pricing
           \<and> map fst pricing =
                [''Ink Cost'', ''Paper Cost'', ''Total Cost'', ''Final Price (with Markup)'']
           \<and> script st_image imread inp (Some content) =
                \<lparr>shown = results_shown cov pricing, raised = None\<rparr>"
    if "st_image content = None \<and> imread content = Some img" for img
  proof -
    let ?cov = "[(''Cyan'', percent_str (ink_percentage (channel C_px img))),
           (''Magenta'', percent_str (ink_percentage (channel M_px img))),
           (''Yellow'', percent_str (ink_percentage (channel Y_px img))),
           (''Black (K)'', percent_str (py_round (fmul (np_mean (channel K_px img)) (Fin 100)) 2))]"
    obtain pricing where p: "calculate_print_cost (globals_of inp) (PRINT_WIDTH inp) (PRINT_HEIGHT inp) ?cov
                (INK_USAGE_PER_M2 (PRINTERS (printer_choice inp))) = Inr pricing"
      and k: "map fst pricing = [''Ink Cost'', ''Paper Cost'', ''Total Cost'', ''Final Price (with Markup)'']"
      using pricing_never_raises [of inp "PRINT_WIDTH inp" "PRINT_HEIGHT inp"
          "ink_percentage (channel C_px img)" "ink_percentage (channel M_px img)"
          "ink_percentage (channel Y_px img)"
          "py_round (fmul (np_mean (channel K_px img)) (Fin 100)) 2"]
      by auto
    have "script st_image imread inp (Some content) = \<lparr>shown = results_shown ?cov pricing, raised = None\<rparr>"
      using that p by (simp add: script_def results_shown_def)
    with p k show ?thesis by simp
  qed
  have d: "calculate_cmyk_coverage (imread content) = None \<longleftrightarrow> imread content = None"
    by (cases "imread content") simp_all
  from a b c d show ?thesis by blast
qed

theorem upload_outcomes_witness:
  "script (\<lambda>content. Some UnidentifiedImageError) (\<lambda>content. None) default_inputs (Some [1, 2, 3]) =
     \<lparr>shown = [], raised = Some UnidentifiedImageError\<rparr>
   \<and> \<lparr>shown = [], raised = Some UnidentifiedImageError\<rparr> \<noteq> \<lparr>shown = error_shown, raised = None\<rparr>
   \<and> script (\<lambda>content. None) (\<lambda>content. None) default_inputs (Some [1, 2, 3]) =
     \<lparr>shown = error_shown, raised = None\<rparr>
   \<and> (\<exists>cov pricing.
         calculate_cmyk_coverage (Some [[(255, 255, 0)]]) = Some cov
         \<and> map fst cov = [''Cyan'', ''Magenta'', ''Yellow'', ''Black (K)'']
         \<and> calculate_print_cost (globals_of default_inputs) (PRINT_WIDTH default_inputs)
              (PRINT_HEIGHT default_inputs) cov
              (INK_USAGE_PER_M2 (PRINTERS (printer_choice default_inputs))) = Inr pricing
         \<and> map fst pricing = [''Ink Cost'', ''Paper Cost'', ''Total Cost'', ''Final Price (with Markup)'']
         \<and> script (\<lambda>content. None) (\<lambda>content. Some [[(255, 255, 0)]]) default_inputs (Some [1, 2, 3]) =
              \<lparr>shown = results_shown cov pricing, raised = None\<rparr>)"
proof -
  have a: "script (\<lambda>content. Some UnidentifiedImageError) (\<lambda>content. None) default_inputs (Some [1, 2, 3]) =
     \<lparr>shown = [], raised = Some UnidentifiedImageError\<rparr>"
    by (rule upload_outcomes [THEN conjunct1, rule_format]) (rule refl)
  have b: "\<lparr>shown = [], raised = Some UnidentifiedImageError\<rparr> \<noteq> \<lparr>shown = error_shown, raised = None\<rparr>"
    by simp
  have c: "script (\<lambda>content. None) (\<lambda>content. None) default_inputs (Some [1, 2, 3]) =
     \<lparr>shown = error_shown, raised = None\<rparr>"
    by (rule upload_outcomes [THEN conjunct2, THEN conjunct1, rule_format]) simp
  have d: "\<exists>cov pricing.
         calculate_cmyk_coverage (Some [[(255, 255, 0)]]) = Some cov
         \<and> map fst cov = [''Cyan'', ''Magenta'', ''Yellow'', ''Black (K)'']
         \<and> calculate_print_cost (globals_of default_inputs) (PRINT_WIDTH default_inputs)
              (PRINT_HEIGHT default_inputs) cov
              (INK_USAGE_PER_M2 (PRINTERS (printer_choice default_inputs))) = Inr pricing
         \<and> map fst pricing = [''Ink Cost'', ''Paper Cost'', ''Total Cost'', ''Final Price (with Markup)'']
         \<and> script (\<lambda>content. None) (\<lambda>content. Some [[(255, 255, 0)]]) default_inputs (Some [1, 2, 3]) =
              \<lparr>shown = results_shown cov pricing, raised = None\<rparr>"
    by (rule upload_outcomes [THEN conjunct2, THEN conjunct2, THEN conjunct1, rule_format]) simp
  from a b c d show ?thesis by (intro conjI)
qed

subsection \<open>Where rounding happens\<close>

lemma coverage_is_reported:
  "calculate_cmyk_coverage (Some img) = Some (dict_of (\<lambda>ch. percent_str (reported_percent img ch)))"
  by (simp add: dict_of_def reported_percent_def ink_percentage_def del: py_round.simps)

lemma parse_percent_str: "py_float (strip_percent (percent_str x)) = Inr x"
  by (simp add: percent_str_def)

lemma ink_cost_consumes:
  "total_ink_cost (globals_for cfg) (widthMm cfg) (heightMm cfg)
     (dict_of (\<lambda>ch. percent_str (percent ch))) (dict_of (inkUsagePerM2 cfg)) =
   Inr (ink_cost_from percent cfg)"
  by (simp add: total_ink_cost_def ink_term_def dict_get_def dict_of_def globals_for_def
        percent_str_def ink_cost_from_def spec_area_def print_area_def)

lemma py_round_two_decimals: "py_round x 2 = NaN \<or> two_decimals (py_round x 2)"
  by (cases x) simp_all

lemma two_tone_reported:
  "reported_percent two_tone Cyan = Fin (6667 / 100)"
  "reported_percent two_tone Magenta = Fin (3333 / 100)"
  "reported_percent two_tone Yellow = Fin (6667 / 100)"
  "reported_percent two_tone Black = Fin (8824 / 100)"
  by (simp_all add: reported_percent_def two_tone_def coverage_eval)

text \<open>
  Claim C3 says that the cost calculation consumes the full-precision means and that no
  formatted string is parsed again. It does not hold: for the two-pixel image the code
  reports 66.67, 33.33, 66.67 and 88.24 percent and computes an ink cost of 254.91 from
  them, while the full-precision means give a different cost, which rounds to 254.90.
\<close>

theorem full_precision_counterexample:
  "calculate_cmyk_coverage (Some two_tone) =
     Some [(''Cyan'', FStr [] (Fin (6667 / 100)) ''%''), (''Magenta'', FStr [] (Fin (3333 / 100)) ''%''),
           (''Yellow'', FStr [] (Fin (6667 / 100)) ''%''), (''Black (K)'', FStr [] (Fin (8824 / 100)) ''%'')]
   \<and> total_ink_cost (globals_for square_metre_job) 1000 1000
       [(''Cyan'', FStr [] (Fin (6667 / 100)) ''%''), (''Magenta'', FStr [] (Fin (3333 / 100)) ''%''),
        (''Yellow'', FStr [] (Fin (6667 / 100)) ''%''), (''Black (K)'', FStr [] (Fin (8824 / 100)) ''%'')]
       (dict_of (inkUsagePerM2 square_metre_job)) = Inr (Fin (25491 / 100))
   \<and> ink_cost_from (unrounded_percent two_tone) square_metre_job \<noteq> Fin (25491 / 100)
   \<and> py_round (ink_cost_from (unrounded_percent two_tone) square_metre_job) 2 = Fin (25490 / 100)"
proof -
  have a: "calculate_cmyk_coverage (Some two_tone) =
     Some [(''Cyan'', FStr [] (Fin (6667 / 100)) ''%''), (''Magenta'', FStr [] (Fin (3333 / 100)) ''%''),
           (''Yellow'', FStr [] (Fin (6667 / 100)) ''%''), (''Black (K)'', FStr [] (Fin (8824 / 100)) ''%'')]"
    using two_tone_reported
    by (simp add: coverage_is_reported dict_of_def percent_str_def
          del: calculate_cmyk_coverage.simps)
  have b: "total_ink_cost (globals_for square_metre_job) 1000 1000
       [(''Cyan'', FStr [] (Fin (6667 / 100)) ''%''), (''Magenta'', FStr [] (Fin (3333 / 100)) ''%''),
        (''Yellow'', FStr [] (Fin (6667 / 100)) ''%''), (''Black (K)'', FStr [] (Fin (8824 / 100)) ''%'')]
       (dict_of (inkUsagePerM2 square_metre_job)) = Inr (Fin (25491 / 100))"
    by (simp add: total_ink_cost_def ink_term_def dict_get_def dict_of_def globals_for_def
          square_metre_job_def print_area_def fadd_def fmul_def fdiv_def)
  have u: "ink_cost_from (unrounded_percent two_tone) square_metre_job =
      Fin (100 * (50 / (30 + 255 / 10 ^ 10)) + 100 * (15 / 17))"
    by (simp add: ink_cost_from_def square_metre_job_def spec_area_def two_tone_def
          channel_def positive_def np_mean_def norm255_def denom_def eps_def
          fadd_def fmul_def fdiv_def)
  have c: "ink_cost_from (unrounded_percent two_tone) square_metre_job \<noteq> Fin (25491 / 100)"
    unfolding u by simp
  have d: "py_round (ink_cost_from (unrounded_percent two_tone) square_metre_job) 2 = Fin (25490 / 100)"
    unfolding u by (simp add: round_half_even_def)
  from a b c d show ?thesis by (intro conjI)
qed

text \<open>
  Claim C3, amended. The coverage function rounds each percentage to two decimals and
  formats it as a string with a percent sign; the cost calculation strips the sign and
  parses the string, so the coverage values it consumes are the rounded percentages
  (a whole number of hundredths, or NaN). Ink cost, total cost and final price are
  computed from these and each rounded once more for display.
\<close>

theorem coverage_rounded_before_cost:
  "calculate_cmyk_coverage (Some img) =
     Some (dict_of (\<lambda>ch. percent_str (py_round (unrounded_percent img ch) 2)))
   \<and> (py_round (unrounded_percent img ch) 2 = NaN \<or> two_decimals (py_round (unrounded_percent img ch) 2))
   \<and> py_float (strip_percent (percent_str (py_round (unrounded_percent img ch) 2))) =
       Inr (py_round (unrounded_percent img ch) 2)
   \<and> total_ink_cost (globals_for cfg) (widthMm cfg) (heightMm cfg)
       (dict_of (\<lambda>ch. percent_str (py_round (unrounded_percent img ch) 2)))
       (dict_of (inkUsagePerM2 cfg)) =
       Inr (ink_cost_from (\<lambda>ch. py_round (unrounded_percent img ch) 2) cfg)
   \<and> calculate_print_cost (globals_for cfg) (widthMm cfg) (heightMm cfg)
       (dict_of (\<lambda>ch. percent_str (py_round (unrounded_percent img ch) 2)))
       (dict_of (inkUsagePerM2 cfg)) =
       Inr [(''Ink Cost'',
               peso_str (py_round (ink_cost_from (\<lambda>ch. py_round (unrounded_percent img ch) 2) cfg) 2)),
            (''Paper Cost'', peso_str (Fin (paperCostPerSheet cfg))),
            (''Total Cost'',
               peso_str (py_round (total_cost (globals_for cfg)
                 (ink_cost_from (\<lambda>ch. py_round (unrounded_percent img ch) 2) cfg)) 2)),
            (''Final Price (with Markup)'',
               peso_str (py_round (final_price (globals_for cfg) (total_cost (globals_for cfg)
                 (ink_cost_from (\<lambda>ch. py_round (unrounded_percent img ch) 2) cfg))) 2))]"
proof -
  have r: "reported_percent img = (\<lambda>ch. py_round (unrounded_percent img ch) 2)"
    by (rule ext) (simp only: reported_percent_def)
  have a: "calculate_cmyk_coverage (Some img) =
     Some (dict_of (\<lambda>ch. percent_str (py_round (unrounded_percent img ch) 2)))"
    using coverage_is_reported [of img] by (simp only: r)
  have b: "py_round (unrounded_percent img ch) 2 = NaN \<or> two_decimals (py_round (unrounded_percent img ch) 2)"
    by (rule py_round_two_decimals)
  have c: "py_float (strip_percent (percent_str (py_round (unrounded_percent img ch) 2))) =
       Inr (py_round (unrounded_percent img ch) 2)"
    by (rule parse_percent_str)
  have d: "total_ink_cost (globals_for cfg) (widthMm cfg) (heightMm cfg)
       (dict_of (\<lambda>ch. percent_str (py_round (unrounded_percent img ch) 2)))
       (dict_of (inkUsagePerM2 cfg)) =
       Inr (ink_cost_from (\<lambda>ch. py_round (unrounded_percent img ch) 2) cfg)"
    by (rule ink_cost_consumes)
  have e: "calculate_print_cost (globals_for cfg) (widthMm cfg) (heightMm cfg)
       (dict_of (\<lambda>ch. percent_str (py_round (unrounded_percent img ch) 2)))
       (dict_of (inkUsagePerM2 cfg)) =
       Inr [(''Ink Cost'',
               peso_str (py_round (ink_cost_from (\<lambda>ch. py_round (unrounded_percent img ch) 2) cfg) 2)),
            (''Paper Cost'', peso_str (Fin (paperCostPerSheet cfg))),
            (''Total Cost'',
               peso_str (py_round (total_cost (globals_for cfg)
                 (ink_cost_from (\<lambda>ch. py_round (unrounded_percent img ch) 2) cfg)) 2)),
            (''Final Price (with Markup)'',
               peso_str (py_round (final_price (globals_for cfg) (total_cost (globals_for cfg)
                 (ink_cost_from (\<lambda>ch. py_round (unrounded_percent img ch) 2) cfg))) 2))]"
    unfolding calculate_print_cost_def d by (simp add: globals_for_def del: py_round.simps)
  from a b c d e show ?thesis by (intro conjI)
qed

theorem coverage_rounded_before_cost_witness:
  "calculate_cmyk_coverage (Some two_tone) =
     Some [(''Cyan'', percent_str (Fin (6667 / 100))), (''Magenta'', percent_str (Fin (3333 / 100))),
           (''Yellow'', percent_str (Fin (6667 / 100))), (''Black (K)'', percent_str (Fin (8824 / 100)))]
   \<and> two_decimals (Fin (8824 / 100))
   \<and> py_float (strip_percent (percent_str (Fin (8824 / 100)))) = Inr (Fin (8824 / 100))
   \<and> calculate_print_cost (globals_for square_metre_job) 1000 1000
       [(''Cyan'', percent_str (Fin (6667 / 100))), (''Magenta'', percent_str (Fin (3333 / 100))),
        (''Yellow'', percent_str (Fin (6667 / 100))), (''Black (K)'', percent_str (Fin (8824 / 100)))]
       (dict_of (inkUsagePerM2 square_metre_job)) =
       Inr [(''Ink Cost'', peso_str (Fin (25491 / 100))), (''Paper Cost'', peso_str (Fin 0)),
            (''Total Cost'', peso_str (Fin (25491 / 100))),
            (''Final Price (with Markup)'', peso_str (Fin (25491 / 100)))]"
proof -
  have v: "py_round (unrounded_percent two_tone Cyan) 2 = Fin (6667 / 100)"
    "py_round (unrounded_percent two_tone Magenta) 2 = Fin (3333 / 100)"
    "py_round (unrounded_percent two_tone Yellow) 2 = Fin (6667 / 100)"
    "py_round (unrounded_percent two_tone Black) 2 = Fin (8824 / 100)"
    using two_tone_reported by (simp_all only: reported_percent_def)
  show ?thesis
    using coverage_rounded_before_cost [of two_tone Black square_metre_job]
    by (simp add: v dict_of_def ink_cost_from_def square_metre_job_def spec_area_def
          globals_for_def total_cost_def final_price_def fadd_def fmul_def fdiv_def
          round_half_even_def
          del: calculate_cmyk_coverage.simps unrounded_percent.simps)
qed

subsection \<open>The paper cost\<close>

text \<open>
  Claim C4. All four amounts should be shown rounded to two decimals. For the A4 job
  with a paper cost of 2.805 the ink cost, total cost and final price are rounded, and
  the paper cost is shown as entered, with three decimals.
\<close>

theorem paper_cost_shown_unrounded:
  "calculate_print_cost (globals_for odd_paper_job) 210 297 (coverage_strings (\<lambda>ch. 10))
       (dict_of (inkUsagePerM2 odd_paper_job)) =
     Inr [(''Ink Cost'', peso_str (Fin (138 / 100))),
          (''Paper Cost'', peso_str (Fin (2805 / 1000))),
          (''Total Cost'', peso_str (Fin (418 / 100))),
          (''Final Price (with Markup)'', peso_str (Fin (544 / 100)))]
   \<and> two_decimals (Fin (138 / 100)) \<and> two_decimals (Fin (418 / 100)) \<and> two_decimals (Fin (544 / 100))
   \<and> \<not> two_decimals (Fin (2805 / 1000))"
  by (simp add: calculate_print_cost_def total_ink_cost_def ink_term_def dict_get_def dict_of_def
        coverage_strings_def globals_for_def odd_paper_job_def a4_job_def percent_str_def
        print_area_def total_cost_def final_price_def fadd_def fmul_def fdiv_def
        round_half_even_def)

end
